theory Spec2Isabelle
  imports Complex_Main
begin

section \<open>Values, errors and the outside world\<close>

text \<open>
  The application is a FastAPI service around four external collaborators: the
  text-splitter library, the PDF reader, the embedding / chat model API and the
  vector database.  Their code is not part of the repository, so each is a field of
  the record \<open>env\<close> (a function the program calls) or, for the vector database
  and the file system, a component of the explicit \<open>world\<close> that every
  effectful function takes and returns.
\<close>

text \<open>Values stored in metadata dictionaries and payloads.\<close>

datatype pyval = PStr string | PInt int

type_synonym pydict = "string \<rightharpoonup> pyval"

text \<open>
  Exceptions.  \<open>HTTPException status detail\<close> is the only class the code
  distinguishes (\<open>except HTTPException: raise\<close>); every other exception is
  \<open>PyError cls msg\<close> with its class name and message.
\<close>

datatype error = HTTPException nat string | PyError string string

fun str_of_error :: "error \<Rightarrow> string" where
  "str_of_error (HTTPException st detail) = detail"
| "str_of_error (PyError cls msg) = msg"

type_synonym vector = "real list"

text \<open>A point of the vector database: \<open>PointStruct(id, vector, payload)\<close>.\<close>

record point =
  point_id :: string
  point_vector :: vector
  payload :: pydict

text \<open>A search hit of the vector database: payload and score.\<close>

record scored_point =
  sp_payload :: pydict
  sp_score :: real

text \<open>The chunk dictionaries \<open>{"content": ..., "metadata": ...}\<close>.\<close>

record chunk =
  content :: string
  metadata :: pydict

text \<open>Observable effects, in the order they happen.\<close>

datatype event =
    EvUuid string
  | EvWriteFile string
  | EvSendEvent string
  | EvReadPdf string
  | EvEmbed string
  | EvCreateCollection string
  | EvUpsert string "point list"
  | EvSearch string
  | EvDelete string string
  | EvRemoveFile string
  | EvChat

record world =
  files :: "string \<rightharpoonup> string"
  collections :: "string \<rightharpoonup> point list"
  uuid_pos :: nat
  qdrant_reqs :: nat
  ticks :: nat
  trace :: "event list"

text \<open>
  The collaborators.  \<open>new_text_splitter\<close> is the constructor
  \<open>RecursiveCharacterTextSplitter(chunk_size, chunk_overlap, length_function=len)\<close>,
  which returns a splitter (its \<open>split_text\<close>) or raises; \<open>pdf_page_texts\<close>
  is \<open>pypdf.PdfReader\<close> followed by \<open>extract_text\<close> on every page;
  \<open>embeddings_create model input\<close> is the embeddings endpoint and gives the
  \<open>embedding\<close> of every item of \<open>response.data\<close>; \<open>chat_create\<close> gives
  the message content of every item of \<open>response.choices\<close>; \<open>uuid_src\<close>
  is the sequence of values \<open>uuid.uuid4()\<close> draws; \<open>qdrant_ok n\<close> says
  whether the \<open>n\<close>-th request to the vector database is served or raises;
  \<open>similarity\<close> is the database's similarity metric; \<open>inngest_send\<close> is the
  event client's \<open>send\<close>; \<open>clock\<close> is \<open>time.time()\<close> at each reading.
\<close>

record env =
  new_text_splitter :: "int \<Rightarrow> int \<Rightarrow> error + (string \<Rightarrow> string list)"
  pdf_page_texts :: "string \<Rightarrow> error + string list"
  embeddings_create :: "string \<Rightarrow> string \<Rightarrow> error + vector list"
  chat_create :: "string \<Rightarrow> (string \<times> string) list \<Rightarrow> error + string list"
  uuid_src :: "nat \<Rightarrow> string"
  qdrant_ok :: "nat \<Rightarrow> bool"
  similarity :: "vector \<Rightarrow> vector \<Rightarrow> real"
  inngest_send :: "string \<Rightarrow> pydict \<Rightarrow> error + string"
  clock :: "nat \<Rightarrow> real"

text \<open>\<open>config.py\<close>: the settings the services read.\<close>

record settings =
  qdrant_collection_name :: string
  chunk_size_setting :: int
  chunk_overlap_setting :: int
  embedding_model_setting :: string
  chat_model_setting :: string

definition log_event :: "event \<Rightarrow> world \<Rightarrow> world" where
  "log_event ev w = w\<lparr>trace := trace w @ [ev]\<rparr>"

text \<open>\<open>str(uuid.uuid4())\<close>: the next draw of the generator.\<close>

definition uuid4 :: "env \<Rightarrow> world \<Rightarrow> string \<times> world" where
  "uuid4 E w =
     (let u = uuid_src E (uuid_pos w)
      in (u, log_event (EvUuid u) (w\<lparr>uuid_pos := Suc (uuid_pos w)\<rparr>)))"

text \<open>Decimal rendering of a number, for the f-strings.\<close>

fun string_of_nat :: "nat \<Rightarrow> string" where
  "string_of_nat n =
     (if n < 10 then [char_of (48 + n)]
      else string_of_nat (n div 10) @ [char_of (48 + n mod 10)])"

declare string_of_nat.simps [simp del]

section \<open>\<open>services/document_processor.py\<close>\<close>

record document_processor =
  chunk_size :: int
  chunk_overlap :: int
  text_splitter :: "string \<Rightarrow> string list"

text \<open>
  \<open>DocumentProcessor.__init__\<close>: stores both numbers and builds the splitter.
  The body has no check of its own; an exception of the splitter's constructor
  leaves through it.
\<close>

definition DocumentProcessor_init :: "env \<Rightarrow> int \<Rightarrow> int \<Rightarrow> error + document_processor" where
  "DocumentProcessor_init E cs co =
     (case new_text_splitter E cs co of
        Inl e \<Rightarrow> Inl e
      | Inr sp \<Rightarrow> Inr \<lparr>chunk_size = cs, chunk_overlap = co, text_splitter = sp\<rparr>)"

text \<open>The loop body of \<open>extract_text_from_pdf\<close>: a page with text adds its marker and text.\<close>

definition add_page :: "string \<Rightarrow> nat \<times> string \<Rightarrow> string" where
  "add_page text np =
     (case np of (page_num, page_text) \<Rightarrow>
        if page_text \<noteq> []
        then text @ [CHR 0x0A] @ ''--- Page '' @ string_of_nat (page_num + 1) @ '' ---''
               @ [CHR 0x0A] @ page_text
        else text)"

definition extract_text_from_pdf :: "env \<Rightarrow> string \<Rightarrow> world \<Rightarrow> (error + string) \<times> world" where
  "extract_text_from_pdf E file_path w =
     (case files w file_path of
        None \<Rightarrow> (Inl (PyError ''FileNotFoundError'' file_path), w)
      | Some bytes \<Rightarrow>
          (let w1 = log_event (EvReadPdf file_path) w in
           case pdf_page_texts E bytes of
             Inl e \<Rightarrow> (Inl e, w1)
           | Inr pages \<Rightarrow> (Inr (foldl add_page [] (enumerate 0 pages)), w1)))"

text \<open>
  \<open>chunk_text\<close>: split, then a second pass that attaches
  \<open>{**metadata, "chunk_index": i, "total_chunks": len(chunks)}\<close>.
\<close>

definition chunk_text :: "document_processor \<Rightarrow> string \<Rightarrow> pydict option \<Rightarrow> chunk list" where
  "chunk_text self text md_opt =
     (let md = (case md_opt of None \<Rightarrow> Map.empty | Some m \<Rightarrow> m);
          chunks = text_splitter self text
      in map (\<lambda>ic. \<lparr>content = snd ic,
                     metadata = md(''chunk_index'' \<mapsto> PInt (int (fst ic)),
                                   ''total_chunks'' \<mapsto> PInt (int (length chunks)))\<rparr>)
             (enumerate 0 chunks))"

definition process_document ::
  "env \<Rightarrow> document_processor \<Rightarrow> string \<Rightarrow> string \<Rightarrow> string \<Rightarrow> world \<Rightarrow> (error + chunk list) \<times> world" where
  "process_document E self file_path document_id filename w =
     (case extract_text_from_pdf E file_path w of
        (Inl e, w1) \<Rightarrow> (Inl e, w1)
      | (Inr text, w1) \<Rightarrow>
          (let md = [''document_id'' \<mapsto> PStr document_id,
                     ''filename'' \<mapsto> PStr filename,
                     ''file_path'' \<mapsto> PStr file_path]
           in (Inr (chunk_text self text (Some md)), w1)))"

section \<open>The vector database\<close>

text \<open>
  Modelled from the spec: the vector database server behind \<open>QdrantClient\<close> is
  not part of the repository.  Section 4.4 of the specification gives its contract:
  a collection holds points; an upsert writes a whole batch or nothing and a point
  written under an identifier already present replaces the old one; search returns
  at most \<open>limit\<close> points in descending similarity, ties in insertion order; a
  filtered delete removes every point whose payload holds the value under the key,
  and removes nothing, without error, when no point matches.  Every request can
  fail as a whole (\<open>qdrant_ok\<close>), and a request to a collection that does not
  exist fails.
\<close>

definition qdrant_request :: "env \<Rightarrow> world \<Rightarrow> bool \<times> world" where
  "qdrant_request E w = (qdrant_ok E (qdrant_reqs w), w\<lparr>qdrant_reqs := Suc (qdrant_reqs w)\<rparr>)"

definition qdrant_unavailable :: error where
  "qdrant_unavailable = PyError ''ResponseHandlingException'' ''vector database unavailable''"

definition qdrant_not_found :: "string \<Rightarrow> error" where
  "qdrant_not_found name = PyError ''UnexpectedResponse'' (''Collection '' @ name @ '' not found'')"

definition qdrant_get_collections :: "env \<Rightarrow> world \<Rightarrow> (error + string set) \<times> world" where
  "qdrant_get_collections E w =
     (case qdrant_request E w of
        (False, w1) \<Rightarrow> (Inl qdrant_unavailable, w1)
      | (True, w1) \<Rightarrow> (Inr (dom (collections w1)), w1))"

definition qdrant_create_collection :: "env \<Rightarrow> string \<Rightarrow> world \<Rightarrow> (error + unit) \<times> world" where
  "qdrant_create_collection E name w =
     (case qdrant_request E w of
        (False, w1) \<Rightarrow> (Inl qdrant_unavailable, w1)
      | (True, w1) \<Rightarrow>
          (Inr (), log_event (EvCreateCollection name)
                     (w1\<lparr>collections := (collections w1)(name \<mapsto> [])\<rparr>)))"

definition upsert_point :: "point list \<Rightarrow> point \<Rightarrow> point list" where
  "upsert_point ps p =
     (if point_id p \<in> point_id ` set ps
      then map (\<lambda>q. if point_id q = point_id p then p else q) ps
      else ps @ [p])"

definition qdrant_upsert :: "env \<Rightarrow> string \<Rightarrow> point list \<Rightarrow> world \<Rightarrow> (error + unit) \<times> world" where
  "qdrant_upsert E name batch w =
     (case qdrant_request E w of
        (False, w1) \<Rightarrow> (Inl qdrant_unavailable, w1)
      | (True, w1) \<Rightarrow>
          (case collections w1 name of
             None \<Rightarrow> (Inl (qdrant_not_found name), w1)
           | Some ps \<Rightarrow>
               (Inr (), log_event (EvUpsert name batch)
                          (w1\<lparr>collections := (collections w1)(name \<mapsto> foldl upsert_point ps batch)\<rparr>))))"

definition qdrant_search ::
  "env \<Rightarrow> string \<Rightarrow> vector \<Rightarrow> nat \<Rightarrow> world \<Rightarrow> (error + scored_point list) \<times> world" where
  "qdrant_search E name query_vector limit w =
     (case qdrant_request E w of
        (False, w1) \<Rightarrow> (Inl qdrant_unavailable, w1)
      | (True, w1) \<Rightarrow>
          (case collections w1 name of
             None \<Rightarrow> (Inl (qdrant_not_found name), w1)
           | Some ps \<Rightarrow>
               (Inr (map (\<lambda>p. \<lparr>sp_payload = payload p,
                                 sp_score = similarity E query_vector (point_vector p)\<rparr>)
                      (take limit
                         (sort_key (\<lambda>p. - similarity E query_vector (point_vector p)) ps))),
                log_event (EvSearch name) w1)))"

definition qdrant_delete :: "env \<Rightarrow> string \<Rightarrow> string \<Rightarrow> string \<Rightarrow> world \<Rightarrow> (error + unit) \<times> world" where
  "qdrant_delete E name key val w =
     (case qdrant_request E w of
        (False, w1) \<Rightarrow> (Inl qdrant_unavailable, w1)
      | (True, w1) \<Rightarrow>
          (case collections w1 name of
             None \<Rightarrow> (Inl (qdrant_not_found name), w1)
           | Some ps \<Rightarrow>
               (Inr (), log_event (EvDelete key val)
                          (w1\<lparr>collections :=
                                (collections w1)(name \<mapsto> filter (\<lambda>p. payload p key \<noteq> Some (PStr val)) ps)\<rparr>))))"

section \<open>\<open>services/vector_store.py\<close>\<close>

record vector_store =
  collection_name :: string
  embedding_model :: string
  embedding_dimension :: nat

definition ensure_collection_exists :: "env \<Rightarrow> vector_store \<Rightarrow> world \<Rightarrow> (error + unit) \<times> world" where
  "ensure_collection_exists E self w =
     (case qdrant_get_collections E w of
        (Inl e, w1) \<Rightarrow> (Inl e, w1)
      | (Inr collection_names, w1) \<Rightarrow>
          if collection_name self \<notin> collection_names
          then qdrant_create_collection E (collection_name self) w1
          else (Inr (), w1))"

definition VectorStore_init ::
  "env \<Rightarrow> string \<Rightarrow> string \<Rightarrow> world \<Rightarrow> (error + vector_store) \<times> world" where
  "VectorStore_init E cname model w =
     (let self = \<lparr>collection_name = cname, embedding_model = model, embedding_dimension = 1536\<rparr>
      in case ensure_collection_exists E self w of
           (Inl e, w1) \<Rightarrow> (Inl e, w1)
         | (Inr u, w1) \<Rightarrow> (Inr self, w1))"

text \<open>
  \<open>generate_embedding\<close>: one call of the embeddings endpoint, then
  \<open>response.data[0].embedding\<close> as it came.
\<close>

definition generate_embedding :: "env \<Rightarrow> vector_store \<Rightarrow> string \<Rightarrow> world \<Rightarrow> (error + vector) \<times> world" where
  "generate_embedding E self text w =
     (let w1 = log_event (EvEmbed text) w in
      case embeddings_create E (embedding_model self) text of
        Inl e \<Rightarrow> (Inl e, w1)
      | Inr data \<Rightarrow>
          (case data of
             [] \<Rightarrow> (Inl (PyError ''IndexError'' ''list index out of range''), w1)
           | d # rest \<Rightarrow> (Inr d, w1)))"

text \<open>The payload \<open>{"content": chunk["content"], **chunk["metadata"]}\<close>.\<close>

definition chunk_payload :: "chunk \<Rightarrow> pydict" where
  "chunk_payload c = [''content'' \<mapsto> PStr (content c)] ++ metadata c"

text \<open>The first loop of \<open>add_documents\<close>: one embedding and one fresh identifier per chunk.\<close>

fun build_points ::
  "env \<Rightarrow> vector_store \<Rightarrow> chunk list \<Rightarrow> point list \<Rightarrow> string list \<Rightarrow> world
     \<Rightarrow> (error + point list \<times> string list) \<times> world" where
  "build_points E self [] points point_ids w = (Inr (points, point_ids), w)"
| "build_points E self (c # cs) points point_ids w =
     (case generate_embedding E self (content c) w of
        (Inl e, w1) \<Rightarrow> (Inl e, w1)
      | (Inr embedding, w1) \<Rightarrow>
          (case uuid4 E w1 of
             (pid, w2) \<Rightarrow>
               build_points E self cs
                 (points @ [\<lparr>point_id = pid, point_vector = embedding, payload = chunk_payload c\<rparr>])
                 (point_ids @ [pid]) w2))"

text \<open>The second loop: \<open>for i in range(0, len(points), batch_size)\<close> with \<open>points[i:i + batch_size]\<close>.\<close>

definition batch_size :: nat where
  "batch_size = 100"

function upsert_batches ::
  "env \<Rightarrow> vector_store \<Rightarrow> point list \<Rightarrow> nat \<Rightarrow> world \<Rightarrow> (error + unit) \<times> world" where
  "upsert_batches E self points i w =
     (if i < length points
      then (case qdrant_upsert E (collection_name self) (take batch_size (drop i points)) w of
              (Inl e, w1) \<Rightarrow> (Inl e, w1)
            | (Inr u, w1) \<Rightarrow> upsert_batches E self points (i + batch_size) w1)
      else (Inr (), w))"
  by pat_completeness auto
termination
  by (relation "measure (\<lambda>(E, self, points, i, w). length points - i)")
     (auto simp: batch_size_def)

declare upsert_batches.simps [simp del]

definition add_documents ::
  "env \<Rightarrow> vector_store \<Rightarrow> chunk list \<Rightarrow> world \<Rightarrow> (error + string list) \<times> world" where
  "add_documents E self chunks w =
     (case build_points E self chunks [] [] w of
        (Inl e, w1) \<Rightarrow> (Inl e, w1)
      | (Inr (points, point_ids), w1) \<Rightarrow>
          (case upsert_batches E self points 0 w1 of
             (Inl e, w2) \<Rightarrow> (Inl e, w2)
           | (Inr u, w2) \<Rightarrow> (Inr point_ids, w2)))"

text \<open>The dictionaries \<open>search\<close> returns.\<close>

record document =
  doc_content :: pyval
  doc_metadata :: pydict
  doc_score :: real

definition format_result :: "scored_point \<Rightarrow> document" where
  "format_result result =
     \<lparr>doc_content = (case sp_payload result ''content'' of Some v \<Rightarrow> v | None \<Rightarrow> PStr []),
      doc_metadata = (\<lambda>k. if k \<noteq> ''content'' then sp_payload result k else None),
      doc_score = sp_score result\<rparr>"

definition search :: "env \<Rightarrow> vector_store \<Rightarrow> string \<Rightarrow> nat \<Rightarrow> world \<Rightarrow> (error + document list) \<times> world" where
  "search E self query top_k w =
     (case generate_embedding E self query w of
        (Inl e, w1) \<Rightarrow> (Inl e, w1)
      | (Inr query_embedding, w1) \<Rightarrow>
          (case qdrant_search E (collection_name self) query_embedding top_k w1 of
             (Inl e, w2) \<Rightarrow> (Inl e, w2)
           | (Inr results, w2) \<Rightarrow> (Inr (map format_result results), w2)))"

definition delete_by_document_id :: "env \<Rightarrow> vector_store \<Rightarrow> string \<Rightarrow> world \<Rightarrow> (error + unit) \<times> world" where
  "delete_by_document_id E self document_id w =
     qdrant_delete E (collection_name self) ''document_id'' document_id w"

section \<open>\<open>services/rag_service.py\<close>\<close>

definition string_of_int :: "int \<Rightarrow> string" where
  "string_of_int i = (if i < 0 then ''-'' @ string_of_nat (nat (- i)) else string_of_nat (nat i))"

text \<open>How an f-string renders a value.\<close>

fun str_of_pyval :: "pyval \<Rightarrow> string" where
  "str_of_pyval (PStr s) = s"
| "str_of_pyval (PInt i) = string_of_int i"

text \<open>\<open>sep.join(parts)\<close>.\<close>

fun str_join :: "string \<Rightarrow> string list \<Rightarrow> string" where
  "str_join sep [] = []"
| "str_join sep [x] = x"
| "str_join sep (x # y # ys) = x @ sep @ str_join sep (y # ys)"

record rag_service =
  chat_model :: string

text \<open>\<open>time.time()\<close>.\<close>

definition time_time :: "env \<Rightarrow> world \<Rightarrow> real \<times> world" where
  "time_time E w = (clock E (ticks w), w\<lparr>ticks := Suc (ticks w)\<rparr>)"

definition source_part :: "nat \<times> document \<Rightarrow> string" where
  "source_part idoc =
     (case idoc of (i, doc) \<Rightarrow>
        (let content = doc_content doc;
             filename = (case doc_metadata doc ''filename'' of
                           Some v \<Rightarrow> v | None \<Rightarrow> PStr ''Unknown'')
         in ''[Source '' @ string_of_nat i @ '' - '' @ str_of_pyval filename @ '']''
              @ [CHR 0x0A] @ str_of_pyval content @ [CHR 0x0A]))"

definition build_context :: "document list \<Rightarrow> string" where
  "build_context documents =
     str_join ([CHR 0x0A] @ ''---'' @ [CHR 0x0A]) (map source_part (enumerate 1 documents))"

definition create_prompt :: "string \<Rightarrow> string \<Rightarrow> string" where
  "create_prompt query context =
     ''Context from documents:'' @ [CHR 0x0A, CHR 0x0A] @ context @ [CHR 0x0A, CHR 0x0A]
       @ ''---'' @ [CHR 0x0A, CHR 0x0A] @ ''Question: '' @ query @ [CHR 0x0A, CHR 0x0A]
       @ ''Please provide a comprehensive answer based on the context above. ''
       @ ''If the context doesn'' @ [CHR 0x27] @ ''t contain relevant information, ''
       @ ''please state that clearly.''"

definition system_instruction :: string where
  "system_instruction =
     ''You are a helpful assistant that answers questions based on the provided context. ''
       @ ''Always cite information from the context when answering. ''
       @ ''If the context doesn'' @ [CHR 0x27] @ ''t contain enough information to answer the question, ''
       @ ''say so clearly.''"

record answer_result =
  answer :: string
  processing_time :: real
  sources :: "document list"

definition generate_answer ::
  "env \<Rightarrow> rag_service \<Rightarrow> string \<Rightarrow> document list \<Rightarrow> world \<Rightarrow> (error + answer_result) \<times> world" where
  "generate_answer E self query context_documents w =
     (case time_time E w of
        (start_time, w1) \<Rightarrow>
          (let context = build_context context_documents;
               prompt = create_prompt query context;
               w2 = log_event EvChat w1
           in case chat_create E (chat_model self)
                     [(''system'', system_instruction), (''user'', prompt)] of
                Inl e \<Rightarrow> (Inl e, w2)
              | Inr choices \<Rightarrow>
                  (case choices of
                     [] \<Rightarrow> (Inl (PyError ''IndexError'' ''list index out of range''), w2)
                   | c # rest \<Rightarrow>
                       (case time_time E w2 of
                          (end_time, w3) \<Rightarrow>
                            (Inr \<lparr>answer = c, processing_time = end_time - start_time,
                                   sources = context_documents\<rparr>, w3)))))"

section \<open>\<open>services/inngest_service.py\<close>\<close>

text \<open>The data of a \<open>document/uploaded\<close> event.\<close>

record ingest_event =
  ev_document_id :: string
  ev_file_path :: string
  ev_filename :: string

text \<open>
  The two dictionaries \<open>process_document_function\<close> returns:
  \<open>{"success": True, "document_id", "chunks_processed", "point_ids"}\<close> and
  \<open>{"success": False, "document_id", "error"}\<close>.
\<close>

datatype job_result =
    JobSucceeded string nat "string list"
  | JobFailed string string

text \<open>\<open>os.remove(file_path) if os.path.exists(file_path) else None\<close>.\<close>

definition remove_if_exists :: "string \<Rightarrow> world \<Rightarrow> world" where
  "remove_if_exists file_path w =
     (if files w file_path \<noteq> None
      then log_event (EvRemoveFile file_path) (w\<lparr>files := (files w)(file_path := None)\<rparr>)
      else w)"

text \<open>
  \<open>process_document_function\<close>: \<open>step.run(name, f)\<close> runs \<open>f\<close>; the whole
  body is inside \<open>try\<close>, and \<open>except Exception\<close> turns any failure into the
  failure dictionary.
\<close>

definition process_document_function ::
  "env \<Rightarrow> settings \<Rightarrow> ingest_event \<Rightarrow> world \<Rightarrow> job_result \<times> world" where
  "process_document_function E S event_data w =
     (let document_id = ev_document_id event_data;
          file_path = ev_file_path event_data;
          filename = ev_filename event_data
      in case DocumentProcessor_init E (chunk_size_setting S) (chunk_overlap_setting S) of
           Inl e \<Rightarrow> (JobFailed document_id (str_of_error e), w)
         | Inr processor \<Rightarrow>
             (case process_document E processor file_path document_id filename w of
                (Inl e, w1) \<Rightarrow> (JobFailed document_id (str_of_error e), w1)
              | (Inr chunks, w1) \<Rightarrow>
                  (case VectorStore_init E (qdrant_collection_name S) (embedding_model_setting S) w1 of
                     (Inl e, w2) \<Rightarrow> (JobFailed document_id (str_of_error e), w2)
                   | (Inr vector_store, w2) \<Rightarrow>
                       (case add_documents E vector_store chunks w2 of
                          (Inl e, w3) \<Rightarrow> (JobFailed document_id (str_of_error e), w3)
                        | (Inr point_ids, w3) \<Rightarrow>
                            (JobSucceeded document_id (length chunks) point_ids,
                             remove_if_exists file_path w3)))))"

text \<open>\<open>send_document_event\<close>: \<open>Inr\<close> is \<open>{"success": True, "result": ...}\<close>,
  \<open>Inl\<close> is \<open>{"success": False, "error": str(e)}\<close>.\<close>

definition send_document_event ::
  "env \<Rightarrow> string \<Rightarrow> string \<Rightarrow> string \<Rightarrow> world \<Rightarrow> (string + string) \<times> world" where
  "send_document_event E document_id file_path filename w =
     (let w1 = log_event (EvSendEvent document_id) w in
      case inngest_send E ''document/uploaded''
             [''document_id'' \<mapsto> PStr document_id,
              ''file_path'' \<mapsto> PStr file_path,
              ''filename'' \<mapsto> PStr filename] of
        Inl e \<Rightarrow> (Inl (str_of_error e), w1)
      | Inr result \<Rightarrow> (Inr result, w1))"

section \<open>\<open>api/routes.py\<close>\<close>

record upload_file =
  filename :: string
  file_bytes :: string

record document_upload_response =
  resp_document_id :: string
  resp_filename :: string
  resp_status :: string
  resp_message :: string

record query_request =
  req_query :: string
  req_top_k :: nat

record query_response =
  qr_query :: string
  qr_answer :: string
  qr_sources :: "document list"
  qr_processing_time :: real

text \<open>\<open>s.endswith(suf)\<close>.\<close>

definition endswith :: "string \<Rightarrow> string \<Rightarrow> bool" where
  "endswith s suf = (length suf \<le> length s \<and> drop (length s - length suf) s = suf)"

text \<open>The \<open>try\<close> block of \<open>upload_document\<close>.\<close>

definition upload_body ::
  "env \<Rightarrow> settings \<Rightarrow> vector_store \<Rightarrow> upload_file \<Rightarrow> world
     \<Rightarrow> (error + document_upload_response) \<times> world" where
  "upload_body E S vector_store file w =
     (case uuid4 E w of
        (document_id, w1) \<Rightarrow>
          (let file_path = ''uploads/'' @ document_id @ ''_'' @ filename file;
               w2 = log_event (EvWriteFile file_path)
                      (w1\<lparr>files := (files w1)(file_path \<mapsto> file_bytes file)\<rparr>)
           in case send_document_event E document_id file_path (filename file) w2 of
                (Inr result, w3) \<Rightarrow>
                  (Inr \<lparr>resp_document_id = document_id, resp_filename = filename file,
                         resp_status = ''processing'',
                         resp_message = ''Document uploaded successfully and is being processed''\<rparr>,
                   w3)
              | (Inl err, w3) \<Rightarrow>
                  (case DocumentProcessor_init E (chunk_size_setting S) (chunk_overlap_setting S) of
                     Inl e \<Rightarrow> (Inl e, w3)
                   | Inr processor \<Rightarrow>
                       (case process_document E processor file_path document_id (filename file) w3 of
                          (Inl e, w4) \<Rightarrow> (Inl e, w4)
                        | (Inr chunks, w4) \<Rightarrow>
                            (case add_documents E vector_store chunks w4 of
                               (Inl e, w5) \<Rightarrow> (Inl e, w5)
                             | (Inr point_ids, w5) \<Rightarrow>
                                 (Inr \<lparr>resp_document_id = document_id,
                                        resp_filename = filename file,
                                        resp_status = ''completed'',
                                        resp_message =
                                          ''Document processed successfully (synchronous mode)''\<rparr>,
                                  remove_if_exists file_path w5))))))"

definition upload_document ::
  "env \<Rightarrow> settings \<Rightarrow> vector_store \<Rightarrow> upload_file \<Rightarrow> world
     \<Rightarrow> (error + document_upload_response) \<times> world" where
  "upload_document E S vector_store file w =
     (if \<not> endswith (filename file) ''.pdf''
      then (Inl (HTTPException 400 ''Only PDF files are supported''), w)
      else (case upload_body E S vector_store file w of
              (Inl e, w1) \<Rightarrow>
                (Inl (HTTPException 500 (''Error processing document: '' @ str_of_error e)), w1)
            | (Inr response, w1) \<Rightarrow> (Inr response, w1)))"

definition no_documents_found :: error where
  "no_documents_found =
     HTTPException 404 ''No relevant documents found. Please upload documents first.''"

text \<open>The \<open>try\<close> block of \<open>query_documents\<close>.\<close>

definition query_body ::
  "env \<Rightarrow> vector_store \<Rightarrow> rag_service \<Rightarrow> query_request \<Rightarrow> world
     \<Rightarrow> (error + query_response) \<times> world" where
  "query_body E vector_store rag request w =
     (case search E vector_store (req_query request) (req_top_k request) w of
        (Inl e, w1) \<Rightarrow> (Inl e, w1)
      | (Inr documents, w1) \<Rightarrow>
          if documents = []
          then (Inl no_documents_found, w1)
          else (case generate_answer E rag (req_query request) documents w1 of
                  (Inl e, w2) \<Rightarrow> (Inl e, w2)
                | (Inr result, w2) \<Rightarrow>
                    (Inr \<lparr>qr_query = req_query request, qr_answer = answer result,
                           qr_sources = sources result,
                           qr_processing_time = processing_time result\<rparr>, w2)))"

text \<open>\<open>except HTTPException: raise\<close>, then \<open>except Exception\<close> as status 500.\<close>

definition query_documents ::
  "env \<Rightarrow> vector_store \<Rightarrow> rag_service \<Rightarrow> query_request \<Rightarrow> world
     \<Rightarrow> (error + query_response) \<times> world" where
  "query_documents E vector_store rag request w =
     (case query_body E vector_store rag request w of
        (Inl (HTTPException st detail), w1) \<Rightarrow> (Inl (HTTPException st detail), w1)
      | (Inl (PyError cls msg), w1) \<Rightarrow>
          (Inl (HTTPException 500 (''Error processing query: '' @ msg)), w1)
      | (Inr response, w1) \<Rightarrow> (Inr response, w1))"

section \<open>Example collaborators\<close>

text \<open>Concrete collaborators used to run the definitions on examples.\<close>

definition fixed_splitter :: "nat \<Rightarrow> string \<Rightarrow> string list" where
  "fixed_splitter n text = (if text = [] then [] else [take n text, drop n text])"

text \<open>A splitter constructor that refuses an overlap larger than the chunk size.\<close>

definition example_splitter_ctor :: "int \<Rightarrow> int \<Rightarrow> error + (string \<Rightarrow> string list)" where
  "example_splitter_ctor cs co =
     (if co > cs then Inl (PyError ''ValueError'' ''Got a larger chunk overlap than chunk size'')
      else Inr (fixed_splitter (nat cs)))"

text \<open>A PDF reader that accepts the bytes after a \<open>%PDF\<close> header as one page.\<close>

definition example_pdf_reader :: "string \<Rightarrow> error + string list" where
  "example_pdf_reader bytes =
     (if take 4 bytes = ''%PDF'' then Inr [drop 4 bytes]
      else Inl (PyError ''PdfReadError'' ''invalid pdf header''))"

definition example_env :: env where
  "example_env =
     \<lparr>new_text_splitter = example_splitter_ctor,
      pdf_page_texts = example_pdf_reader,
      embeddings_create = (\<lambda>model input. Inr [[1, 2, 3]]),
      chat_create = (\<lambda>model messages. Inr [''an answer'']),
      uuid_src = (\<lambda>n. replicate (Suc n) CHR ''u''),
      qdrant_ok = (\<lambda>n. True),
      similarity = (\<lambda>q v. 0),
      inngest_send = (\<lambda>name data. Inl (PyError ''Exception'' ''event key missing'')),
      clock = (\<lambda>n. real n)\<rparr>"

definition example_settings :: settings where
  "example_settings =
     \<lparr>qdrant_collection_name = ''documents'', chunk_size_setting = 3,
      chunk_overlap_setting = 0, embedding_model_setting = ''text-embedding-3-small'',
      chat_model_setting = ''gpt-4-turbo-preview''\<rparr>"

definition example_store :: vector_store where
  "example_store =
     \<lparr>collection_name = ''documents'', embedding_model = ''text-embedding-3-small'',
      embedding_dimension = 1536\<rparr>"

definition empty_world :: world where
  "empty_world =
     \<lparr>files = Map.empty, collections = [''documents'' \<mapsto> []], uuid_pos = 0,
      qdrant_reqs = 0, ticks = 0, trace = []\<rparr>"

section \<open>Reading a trace\<close>

text \<open>The points written by the upserts of a trace, in order, and the files removed.\<close>

fun upserted :: "event list \<Rightarrow> point list" where
  "upserted [] = []"
| "upserted (EvUpsert name batch # evs) = batch @ upserted evs"
| "upserted (ev # evs) = upserted evs"

fun removed :: "event list \<Rightarrow> string list" where
  "removed [] = []"
| "removed (EvRemoveFile file_path # evs) = file_path # removed evs"
| "removed (ev # evs) = removed evs"

fun chat_calls :: "event list \<Rightarrow> nat" where
  "chat_calls [] = 0"
| "chat_calls (EvChat # evs) = Suc (chat_calls evs)"
| "chat_calls (ev # evs) = chat_calls evs"

section \<open>Properties of the chunker\<close>

lemma chunk_text_length:
  "length (chunk_text self text md) = length (text_splitter self text)"
  by (simp add: chunk_text_def Let_def)

text \<open>
  C1: for every text and base metadata, the chunk at position \<open>i\<close> of the returned
  sequence carries the base metadata merged with \<open>chunk_index = i\<close> and
  \<open>total_chunks =\<close> the length of the returned sequence (an absent base
  metadata counts as the empty dictionary).
\<close>

theorem chunk_text_metadata:
  assumes "i < length (chunk_text self text md)"
  shows "metadata (chunk_text self text md ! i) =
           (case md of None \<Rightarrow> Map.empty | Some m \<Rightarrow> m)
             (''chunk_index'' \<mapsto> PInt (int i),
              ''total_chunks'' \<mapsto> PInt (int (length (chunk_text self text md))))"
proof -
  from assms have i: "i < length (text_splitter self text)"
    by (simp add: chunk_text_length)
  have len: "length (chunk_text self text md) = length (text_splitter self text)"
    by (rule chunk_text_length)
  show ?thesis
    unfolding len using i
    by (simp add: chunk_text_def Let_def nth_enumerate_eq)
qed

theorem chunk_text_metadata_witness:
  "(1::nat) < length (chunk_text \<lparr>chunk_size = 3, chunk_overlap = 0,
                                   text_splitter = fixed_splitter 3\<rparr> ''abcdef'' None)
   \<and> metadata (chunk_text \<lparr>chunk_size = 3, chunk_overlap = 0,
                            text_splitter = fixed_splitter 3\<rparr> ''abcdef'' None ! 1) =
       [''chunk_index'' \<mapsto> PInt 1, ''total_chunks'' \<mapsto> PInt 2]"
proof -
  have h: "(1::nat) < length (chunk_text \<lparr>chunk_size = 3, chunk_overlap = 0,
                                   text_splitter = fixed_splitter 3\<rparr> ''abcdef'' None)"
    by (simp add: chunk_text_length fixed_splitter_def)
  have l: "length (chunk_text \<lparr>chunk_size = 3, chunk_overlap = 0,
                                   text_splitter = fixed_splitter 3\<rparr> ''abcdef'' None) = 2"
    by (simp add: chunk_text_length fixed_splitter_def)
  show ?thesis
    using h chunk_text_metadata [OF h] unfolding l by simp
qed

section \<open>Effects of the vector store operations\<close>

lemma upserted_append: "upserted (xs @ ys) = upserted xs @ upserted ys"
  by (induction xs rule: upserted.induct) simp_all

lemma removed_append: "removed (xs @ ys) = removed xs @ removed ys"
  by (induction xs rule: removed.induct) simp_all

lemma chat_calls_append: "chat_calls (xs @ ys) = chat_calls xs + chat_calls ys"
  by (induction xs rule: chat_calls.induct) simp_all

lemma generate_embedding_world:
  "snd (generate_embedding E self t w) = log_event (EvEmbed t) w"
  by (simp add: generate_embedding_def Let_def split: sum.splits list.splits)

lemma generate_embedding_Inr:
  "fst (generate_embedding E self t w) = Inr v \<longleftrightarrow>
     (\<exists>rest. embeddings_create E (embedding_model self) t = Inr (v # rest))"
  by (auto simp add: generate_embedding_def Let_def split: sum.splits list.splits)

lemma build_points_frame:
  "build_points E self cs pts ids w = (r, w') \<Longrightarrow>
     files w' = files w \<and> collections w' = collections w \<and> qdrant_reqs w' = qdrant_reqs w
     \<and> ticks w' = ticks w
     \<and> (\<exists>evs. trace w' = trace w @ evs \<and> upserted evs = [] \<and> removed evs = []
              \<and> chat_calls evs = 0)"
proof (induction cs arbitrary: pts ids w)
  case Nil
  then show ?case by simp
next
  case (Cons c cs)
  show ?case
  proof (cases "fst (generate_embedding E self (content c) w)")
    case (Inl e)
    with Cons.prems show ?thesis
      using generate_embedding_world [of E self "content c" w]
      by (cases "generate_embedding E self (content c) w")
         (auto simp: log_event_def)
  next
    case (Inr emb)
    let ?w1 = "log_event (EvEmbed (content c)) w"
    let ?w2 = "snd (uuid4 E ?w1)"
    from Inr Cons.prems generate_embedding_world [of E self "content c" w]
    obtain pts' ids' where rec: "build_points E self cs pts' ids' ?w2 = (r, w')"
      by (cases "generate_embedding E self (content c) w")
         (auto simp: uuid4_def Let_def split: prod.splits)
    from Cons.IH [OF rec] show ?thesis
      by (auto simp: uuid4_def Let_def log_event_def upserted_append removed_append
            chat_calls_append)
  qed
qed


lemma build_points_Inr:
  "build_points E self cs pts ids w = (Inr (pts', ids'), w') \<Longrightarrow>
     (\<exists>new. pts' = pts @ new \<and> ids' = ids @ map point_id new
        \<and> map payload new = map chunk_payload cs
        \<and> map point_id new = map (uuid_src E) [uuid_pos w ..< uuid_pos w + length cs]
        \<and> map (\<lambda>p. fst (generate_embedding E self (content p) w)) cs
            = map (\<lambda>p. Inr (point_vector p)) new
        \<and> uuid_pos w' = uuid_pos w + length cs)"
proof (induction cs arbitrary: pts ids w)
  case Nil
  then show ?case by simp
next
  case (Cons c cs)
  from Cons.prems obtain emb where
    emb: "fst (generate_embedding E self (content c) w) = Inr emb"
    by (cases "generate_embedding E self (content c) w"; cases "fst (generate_embedding E self (content c) w)")
       auto
  let ?w1 = "log_event (EvEmbed (content c)) w"
  let ?u = "uuid_src E (uuid_pos w)"
  let ?w2 = "snd (uuid4 E ?w1)"
  let ?p = "\<lparr>point_id = ?u, point_vector = emb, payload = chunk_payload c\<rparr>"
  have u: "fst (uuid4 E ?w1) = ?u" and pos: "uuid_pos ?w2 = Suc (uuid_pos w)"
    by (simp_all add: uuid4_def Let_def log_event_def)
  from emb Cons.prems generate_embedding_world [of E self "content c" w] u
  have rec: "build_points E self cs (pts @ [?p]) (ids @ [?u]) ?w2 = (Inr (pts', ids'), w')"
    by (cases "generate_embedding E self (content c) w")
       (auto simp: uuid4_def Let_def split: prod.splits)
  from Cons.IH [OF rec] obtain new where new:
    "pts' = (pts @ [?p]) @ new" "ids' = (ids @ [?u]) @ map point_id new"
    "map payload new = map chunk_payload cs"
    "map point_id new = map (uuid_src E) [uuid_pos ?w2 ..< uuid_pos ?w2 + length cs]"
    "map (\<lambda>p. fst (generate_embedding E self (content p) ?w2)) cs
            = map (\<lambda>p. Inr (point_vector p)) new"
    "uuid_pos w' = uuid_pos ?w2 + length cs"
    by blast
  have indep: "\<And>t wa wb. fst (generate_embedding E self t wa) = fst (generate_embedding E self t wb)"
    by (simp add: generate_embedding_def Let_def split: sum.splits list.splits)
  have emb_eq: "map (\<lambda>p. fst (generate_embedding E self (content p) w)) cs
            = map (\<lambda>p. Inr (point_vector p)) new"
    using new(5) indep [of _ w ?w2] by simp
  have ids_eq: "[uuid_pos w ..< uuid_pos w + length (c # cs)]
      = uuid_pos w # [uuid_pos ?w2 ..< uuid_pos ?w2 + length cs]"
    unfolding pos by (simp add: upt_rec)
  show ?case
    apply (rule exI [of _ "?p # new"])
    using new(1,2,3,4,6) emb emb_eq pos unfolding ids_eq by simp
qed


lemma qdrant_upsert_Inr:
  "qdrant_upsert E name batch w = (Inr u, w') \<Longrightarrow>
     (\<exists>ps. collections w name = Some ps
        \<and> collections w' = (collections w)(name \<mapsto> foldl upsert_point ps batch))
     \<and> trace w' = trace w @ [EvUpsert name batch] \<and> files w' = files w
     \<and> uuid_pos w' = uuid_pos w \<and> ticks w' = ticks w"
  by (auto simp: qdrant_upsert_def qdrant_request_def log_event_def
           split: bool.splits option.splits if_splits)

lemma qdrant_upsert_Inl:
  "qdrant_upsert E name batch w = (Inl e, w') \<Longrightarrow>
     collections w' = collections w \<and> trace w' = trace w \<and> files w' = files w
     \<and> uuid_pos w' = uuid_pos w \<and> ticks w' = ticks w"
  by (auto simp: qdrant_upsert_def qdrant_request_def log_event_def
           split: bool.splits option.splits if_splits)

lemma upsert_batches_frame:
  "upsert_batches E self points i w = (r, w') \<Longrightarrow>
     files w' = files w \<and> uuid_pos w' = uuid_pos w \<and> ticks w' = ticks w
     \<and> (\<exists>bs. trace w' = trace w @ map (EvUpsert (collection_name self)) bs
             \<and> (\<forall>b \<in> set bs. b \<noteq> [] \<and> length b \<le> batch_size)
             \<and> (\<exists>rest. drop i points = concat bs @ rest \<and> (r = Inr () \<longrightarrow> rest = [])))"
proof (induction E self points i w arbitrary: r w' rule: upsert_batches.induct)
  case (1 E self points i w)
  show ?case
  proof (cases "i < length points")
    case False
    with "1.prems" show ?thesis
      by (subst (asm) upsert_batches.simps) (auto intro: exI [of _ "[]"])
  next
    case True
    let ?b = "take batch_size (drop i points)"
    have bne: "?b \<noteq> []" using True by (simp add: batch_size_def)
    have blen: "length ?b \<le> batch_size" by simp
    have split_drop: "drop i points = ?b @ drop (i + batch_size) points"
      by (metis add.commute append_take_drop_id drop_drop)
    obtain r1 w1 where up: "qdrant_upsert E (collection_name self) ?b w = (r1, w1)"
      by (cases "qdrant_upsert E (collection_name self) ?b w") auto
    show ?thesis
    proof (cases r1)
      case (Inl e)
      with "1.prems" True up have "r = Inl e" "w' = w1"
        by (subst (asm) upsert_batches.simps; simp)+
      with qdrant_upsert_Inl [of E "collection_name self" ?b w e w1] up Inl
      show ?thesis
        by (auto intro!: exI [of _ "[]"])
    next
      case (Inr u)
      with "1.prems" True up
      have rec: "upsert_batches E self points (i + batch_size) w1 = (r, w')"
        by (subst (asm) upsert_batches.simps) simp
      from qdrant_upsert_Inr [of E "collection_name self" ?b w u w1] up Inr
      have w1: "trace w1 = trace w @ [EvUpsert (collection_name self) ?b]"
        "files w1 = files w" "uuid_pos w1 = uuid_pos w" "ticks w1 = ticks w"
        by auto
      from "1.IH" [OF True up [symmetric] Inr rec]
      obtain bs rest where bs:
        "files w' = files w1" "uuid_pos w' = uuid_pos w1" "ticks w' = ticks w1"
        "trace w' = trace w1 @ map (EvUpsert (collection_name self)) bs"
        "\<forall>b \<in> set bs. b \<noteq> [] \<and> length b \<le> batch_size"
        "drop (i + batch_size) points = concat bs @ rest" "r = Inr () \<longrightarrow> rest = []"
        by auto
      show ?thesis
        using bs w1 bne blen split_drop
        by (intro conjI exI [of _ "?b # bs"] exI [of _ rest]) auto
    qed
  qed
qed

lemma foldl_upsert_append:
  "foldl upsert_point ps (xs @ ys) = foldl upsert_point (foldl upsert_point ps xs) ys"
  by simp

lemma upsert_batches_collections:
  "upsert_batches E self points i w = (Inr u, w') \<Longrightarrow> collections w (collection_name self) = Some ps \<Longrightarrow>
     collections w' = (collections w)(collection_name self \<mapsto> foldl upsert_point ps (drop i points))"
proof (induction E self points i w arbitrary: ps w' rule: upsert_batches.induct)
  case (1 E self points i w)
  show ?case
  proof (cases "i < length points")
    case False
    with "1.prems" show ?thesis
      by (subst (asm) upsert_batches.simps) (auto simp: fun_eq_iff)
  next
    case True
    let ?b = "take batch_size (drop i points)"
    have split_drop: "drop i points = ?b @ drop (i + batch_size) points"
      by (metis add.commute append_take_drop_id drop_drop)
    obtain r1 w1 where up: "qdrant_upsert E (collection_name self) ?b w = (r1, w1)"
      by (cases "qdrant_upsert E (collection_name self) ?b w") auto
    show ?thesis
    proof (cases r1)
      case (Inl e)
      with "1.prems" True up show ?thesis
        by (subst (asm) upsert_batches.simps) simp
    next
      case (Inr u1)
      with "1.prems" True up
      have rec: "upsert_batches E self points (i + batch_size) w1 = (Inr u, w')"
        by (subst (asm) upsert_batches.simps) simp
      from qdrant_upsert_Inr [of E "collection_name self" ?b w u1 w1] up Inr "1.prems"(2)
      have c1: "collections w1 = (collections w)(collection_name self \<mapsto> foldl upsert_point ps ?b)"
        by auto
      then have c1': "collections w1 (collection_name self) = Some (foldl upsert_point ps ?b)"
        by simp
      from "1.IH" [OF True up [symmetric] Inr rec c1']
      have "collections w' = (collections w1)(collection_name self \<mapsto>
              foldl upsert_point (foldl upsert_point ps ?b) (drop (i + batch_size) points))"
        by auto
      then show ?thesis
        unfolding c1 by (subst split_drop) (simp only: foldl_append fun_upd_upd)
    qed
  qed
qed


section \<open>Properties of \<open>add_documents\<close>\<close>

lemma add_documents_Inr:
  "add_documents E self chunks w = (Inr point_ids, w') \<Longrightarrow>
     \<exists>points w1. build_points E self chunks [] [] w = (Inr (points, point_ids), w1)
        \<and> upsert_batches E self points 0 w1 = (Inr (), w')"
  unfolding add_documents_def
  by (cases "build_points E self chunks [] [] w")
     (auto split: sum.splits prod.splits)

text \<open>
  C6: a successful \<open>add_documents\<close> returns one identifier per chunk, in input
  order; the identifiers are the next draws of \<open>uuid4\<close>, pairwise distinct when
  the generator never repeats a value; the points carry the chunks' payloads and
  embeddings; they are written in non-empty batches of at most 100 points whose
  concatenation is the whole list; and the collection ends as after one upsert of
  the whole list.
\<close>

theorem add_documents_result:
  assumes run: "add_documents E self chunks w = (Inr point_ids, w')"
    and uniq: "inj (uuid_src E)"
    and coll: "collections w (collection_name self) = Some ps"
  shows "length point_ids = length chunks
     \<and> distinct point_ids
     \<and> point_ids = map (uuid_src E) [uuid_pos w ..< uuid_pos w + length chunks]
     \<and> (\<exists>points batches pre.
           map point_id points = point_ids
         \<and> map payload points = map chunk_payload chunks
         \<and> map (\<lambda>c. fst (generate_embedding E self (content c) w)) chunks
              = map (\<lambda>p. Inr (point_vector p)) points
         \<and> trace w' = trace w @ pre @ map (EvUpsert (collection_name self)) batches
         \<and> upserted pre = []
         \<and> concat batches = points
         \<and> list_all (\<lambda>b. b \<noteq> [] \<and> length b \<le> 100) batches
         \<and> collections w' = (collections w)(collection_name self \<mapsto> foldl upsert_point ps points)
         \<and> (\<forall>w1 w2. collections w1 = collections w
               \<and> qdrant_upsert E (collection_name self) points w1 = (Inr (), w2)
               \<longrightarrow> collections w2 = collections w'))"
proof -
  from add_documents_Inr [OF run] obtain points w1 where
    bp: "build_points E self chunks [] [] w = (Inr (points, point_ids), w1)"
    and ub: "upsert_batches E self points 0 w1 = (Inr (), w')"
    by blast
  from build_points_Inr [OF bp] obtain new where new:
    "points = [] @ new" "point_ids = [] @ map point_id new"
    "map payload new = map chunk_payload chunks"
    "map point_id new = map (uuid_src E) [uuid_pos w ..< uuid_pos w + length chunks]"
    "map (\<lambda>c. fst (generate_embedding E self (content c) w)) chunks
       = map (\<lambda>p. Inr (point_vector p)) new"
    by blast
  then have pn: "new = points" by simp
  note pts = new(2-5) [unfolded pn append_Nil]
  from build_points_frame [OF bp] obtain pre where pre:
    "collections w1 = collections w" "trace w1 = trace w @ pre" "upserted pre = []"
    by blast
  from upsert_batches_frame [OF ub] obtain batches rest where bs:
    "trace w' = trace w1 @ map (EvUpsert (collection_name self)) batches"
    "\<forall>b \<in> set batches. b \<noteq> [] \<and> length b \<le> batch_size"
    "drop 0 points = concat batches @ rest" "Inr () = (Inr () :: error + unit) \<longrightarrow> rest = []"
    by blast
  then have cb: "concat batches = points" by simp
  from coll pre(1) have coll1: "collections w1 (collection_name self) = Some ps" by simp
  from upsert_batches_collections [OF ub coll1] pre(1)
  have cw': "collections w' = (collections w)(collection_name self \<mapsto> foldl upsert_point ps points)"
    by simp
  have ids: "point_ids = map (uuid_src E) [uuid_pos w ..< uuid_pos w + length chunks]"
    using pts(1,3) by simp
  have len: "length point_ids = length chunks"
    unfolding ids by simp
  have "inj_on (uuid_src E) (set [uuid_pos w ..< uuid_pos w + length chunks])"
    using uniq by (rule inj_on_subset) simp
  then have dist: "distinct point_ids"
    unfolding ids by (simp add: distinct_map)
  have single: "\<forall>w1 w2. collections w1 = collections w
               \<and> qdrant_upsert E (collection_name self) points w1 = (Inr (), w2)
               \<longrightarrow> collections w2 = collections w'"
  proof (intro allI impI, elim conjE)
    fix wa wb
    assume a: "collections wa = collections w"
      and b: "qdrant_upsert E (collection_name self) points wa = (Inr (), wb)"
    from qdrant_upsert_Inr [OF b] a coll show "collections wb = collections w'"
      unfolding cw' by auto
  qed
  have la: "list_all (\<lambda>b. b \<noteq> [] \<and> length b \<le> 100) batches"
    using bs(2) by (simp add: list_all_iff batch_size_def)
  have tr: "trace w' = trace w @ pre @ map (EvUpsert (collection_name self)) batches"
    using bs(1) pre(2) by simp
  have ex: "\<exists>points batches pre.
           map point_id points = point_ids
         \<and> map payload points = map chunk_payload chunks
         \<and> map (\<lambda>c. fst (generate_embedding E self (content c) w)) chunks
              = map (\<lambda>p. Inr (point_vector p)) points
         \<and> trace w' = trace w @ pre @ map (EvUpsert (collection_name self)) batches
         \<and> upserted pre = []
         \<and> concat batches = points
         \<and> list_all (\<lambda>b. b \<noteq> [] \<and> length b \<le> 100) batches
         \<and> collections w' = (collections w)(collection_name self \<mapsto> foldl upsert_point ps points)
         \<and> (\<forall>w1 w2. collections w1 = collections w
               \<and> qdrant_upsert E (collection_name self) points w1 = (Inr (), w2)
               \<longrightarrow> collections w2 = collections w')"
    apply (rule exI [of _ points], rule exI [of _ batches], rule exI [of _ pre])
    apply (intro conjI)
    apply (rule pts(1) [symmetric])
    apply (rule pts(2))
    apply (rule pts(4))
    apply (rule tr)
    apply (rule pre(3))
    apply (rule cb)
    apply (rule la)
    apply (rule cw')
    apply (rule single)
    done
  from len dist ids ex show ?thesis by blast
qed

end
